theory Spec2Isabelle
  imports Complex_Main "HOL-Library.Sublist" "HOL-Library.Multiset"
begin

section \<open>Number model\<close>

text \<open>
  The three scripts compute with IEEE-754 doubles (Python \<open>float\<close>, numpy \<open>float64\<close>).
  A double is modelled by the real number it stands for, or by one of the three special
  values the scripts can produce and test for: the two infinities and NaN.  Arithmetic
  on finite values is exact real arithmetic: rounding, overflow and the sign of zero
  are not modelled (a zero divisor is \<open>+0.0\<close>, which is what \<open>x - x\<close> and the
  integer \<open>0\<close> give in the scripts).  The special values follow IEEE-754 as numpy
  implements it: division by zero gives an infinity or NaN, the square root of a negative
  number is NaN, every comparison with NaN is false.
\<close>

datatype npfloat = Fin real | PInf | NInf | NaN

fun isnan :: "npfloat \<Rightarrow> bool" where
  "isnan NaN = True"
| "isnan _ = False"

fun isfinite :: "npfloat \<Rightarrow> bool" where
  "isfinite (Fin _) = True"
| "isfinite _ = False"

fun fneg :: "npfloat \<Rightarrow> npfloat" where
  "fneg (Fin a) = Fin (- a)"
| "fneg PInf = NInf"
| "fneg NInf = PInf"
| "fneg NaN = NaN"

fun fadd :: "npfloat \<Rightarrow> npfloat \<Rightarrow> npfloat" where
  "fadd (Fin a) (Fin b) = Fin (a + b)"
| "fadd NaN _ = NaN"
| "fadd _ NaN = NaN"
| "fadd PInf NInf = NaN"
| "fadd NInf PInf = NaN"
| "fadd PInf _ = PInf"
| "fadd _ PInf = PInf"
| "fadd NInf _ = NInf"
| "fadd _ NInf = NInf"

definition fsub :: "npfloat \<Rightarrow> npfloat \<Rightarrow> npfloat" where
  "fsub x y = fadd x (fneg y)"

text \<open>The sign of a product or quotient with an infinite operand.\<close>

definition signed_inf :: "bool \<Rightarrow> npfloat" where
  "signed_inf positive = (if positive then PInf else NInf)"

fun fmul :: "npfloat \<Rightarrow> npfloat \<Rightarrow> npfloat" where
  "fmul (Fin a) (Fin b) = Fin (a * b)"
| "fmul NaN _ = NaN"
| "fmul _ NaN = NaN"
| "fmul PInf (Fin b) = (if b = 0 then NaN else signed_inf (0 < b))"
| "fmul NInf (Fin b) = (if b = 0 then NaN else signed_inf (b < 0))"
| "fmul (Fin a) PInf = (if a = 0 then NaN else signed_inf (0 < a))"
| "fmul (Fin a) NInf = (if a = 0 then NaN else signed_inf (a < 0))"
| "fmul PInf PInf = PInf"
| "fmul NInf NInf = PInf"
| "fmul PInf NInf = NInf"
| "fmul NInf PInf = NInf"

fun fdiv :: "npfloat \<Rightarrow> npfloat \<Rightarrow> npfloat" where
  "fdiv (Fin a) (Fin b) =
     (if b = 0 then (if a = 0 then NaN else signed_inf (0 < a)) else Fin (a / b))"
| "fdiv NaN _ = NaN"
| "fdiv _ NaN = NaN"
| "fdiv (Fin a) PInf = Fin 0"
| "fdiv (Fin a) NInf = Fin 0"
| "fdiv PInf (Fin b) = signed_inf (0 \<le> b)"
| "fdiv NInf (Fin b) = signed_inf (b < 0)"
| "fdiv PInf PInf = NaN"
| "fdiv PInf NInf = NaN"
| "fdiv NInf PInf = NaN"
| "fdiv NInf NInf = NaN"

definition fsquare :: "npfloat \<Rightarrow> npfloat" where
  "fsquare x = fmul x x"


fun fsqrt :: "npfloat \<Rightarrow> npfloat" where
  "fsqrt (Fin a) = (if a < 0 then NaN else Fin (sqrt a))"
| "fsqrt PInf = PInf"
| "fsqrt NInf = NaN"
| "fsqrt NaN = NaN"

fun flog :: "npfloat \<Rightarrow> npfloat" where
  "flog (Fin a) = (if a < 0 then NaN else if a = 0 then NInf else Fin (ln a))"
| "flog PInf = PInf"
| "flog NInf = NaN"
| "flog NaN = NaN"

fun fexp :: "npfloat \<Rightarrow> npfloat" where
  "fexp (Fin a) = Fin (exp a)"
| "fexp PInf = PInf"
| "fexp NInf = Fin 0"
| "fexp NaN = NaN"

fun flt :: "npfloat \<Rightarrow> npfloat \<Rightarrow> bool" where
  "flt (Fin a) (Fin b) = (a < b)"
| "flt NaN _ = False"
| "flt _ NaN = False"
| "flt NInf NInf = False"
| "flt NInf _ = True"
| "flt PInf _ = False"
| "flt (Fin a) PInf = True"
| "flt (Fin a) NInf = False"

fun feq :: "npfloat \<Rightarrow> npfloat \<Rightarrow> bool" where
  "feq NaN _ = False"
| "feq _ NaN = False"
| "feq x y = (x = y)"

definition fle :: "npfloat \<Rightarrow> npfloat \<Rightarrow> bool" where
  "fle x y = (flt x y \<or> feq x y)"

definition fgt :: "npfloat \<Rightarrow> npfloat \<Rightarrow> bool" where
  "fgt x y = flt y x"

definition fge :: "npfloat \<Rightarrow> npfloat \<Rightarrow> bool" where
  "fge x y = fle y x"

text \<open>\<open>np.sum\<close> of a one-dimensional array; the sum of the empty array is \<open>0.0\<close>.\<close>

fun fsum :: "npfloat list \<Rightarrow> npfloat" where
  "fsum [] = Fin 0"
| "fsum (x # xs) = fadd x (fsum xs)"

section \<open>Assessment 1: the bouncy ball\<close>

definition g :: real where
  "g = 9.80665"

text \<open>
  \<open>bounce_time\<close>: the fall from a peak of the given height plus the rise to the next
  peak, \<open>np.sqrt(2*height/g) + np.sqrt(2*height*efficiency/g)\<close>.
\<close>

definition bounce_time :: "npfloat \<Rightarrow> npfloat \<Rightarrow> npfloat" where
  "bounce_time height efficiency =
     (let fall_time = fsqrt (fdiv (fmul (Fin 2) height) (Fin g));
          rise_time = fsqrt (fdiv (fmul (fmul (Fin 2) height) efficiency) (Fin g))
      in fadd fall_time rise_time)"

text \<open>The messages the script prints before \<open>Please try again.\<close>\<close>

datatype message =
    Heights_not_positive
  | Minimum_not_below_initial
  | Bounces_indefinitely
  | Does_not_bounce
  | Efficiency_out_of_range
  | No_bounce_above_minimum
  | Inputs_not_floats

text \<open>
  The \<open>if\<close>/\<open>elif\<close> chain that guards the simulation, in the source's order:
  \<open>Some m\<close> is the branch that prints \<open>m\<close>, \<open>None\<close> is the final \<open>else\<close>.
\<close>

definition input_error :: "npfloat \<Rightarrow> npfloat \<Rightarrow> npfloat \<Rightarrow> message option" where
  "input_error initial_height minimum_height efficiency =
     (if fle initial_height (Fin 0) \<or> fle minimum_height (Fin 0) then Some Heights_not_positive
      else if fge minimum_height initial_height then Some Minimum_not_below_initial
      else if feq efficiency (Fin 1) then Some Bounces_indefinitely
      else if feq efficiency (Fin 0) then Some Does_not_bounce
      else if fgt efficiency (Fin 1) \<or> flt efficiency (Fin 0) then Some Efficiency_out_of_range
      else if flt (fmul initial_height efficiency) minimum_height then Some No_bounce_above_minimum
      else None)"

record bounce_state =
  bounces :: nat
  total_time :: npfloat
  height :: npfloat
  array_heights :: "npfloat list"
  array_times :: "npfloat list"

definition initial_state :: "npfloat \<Rightarrow> bounce_state" where
  "initial_state initial_height =
     \<lparr>bounces = 0, total_time = Fin 0, height = initial_height,
      array_heights = [initial_height], array_times = [Fin 0]\<rparr>"

text \<open>One execution of the body of \<open>while height * efficiency >= minimum_height\<close>.\<close>

definition bounce_step :: "npfloat \<Rightarrow> bounce_state \<Rightarrow> bounce_state" where
  "bounce_step efficiency s =
     (let bounces' = bounces s + 1;
          total_time' = fadd (total_time s) (bounce_time (height s) efficiency);
          height' = fmul (height s) efficiency
      in \<lparr>bounces = bounces', total_time = total_time', height = height',
          array_heights = array_heights s @ [height'],
          array_times = array_times s @ [total_time']\<rparr>)"

text \<open>The loop itself; \<open>None\<close> is a loop that never leaves.\<close>

partial_function (option) bounce_loop ::
  "npfloat \<Rightarrow> npfloat \<Rightarrow> bounce_state \<Rightarrow> bounce_state option" where
  "bounce_loop efficiency minimum_height s =
     (if fge (fmul (height s) efficiency) minimum_height
      then bounce_loop efficiency minimum_height (bounce_step efficiency s)
      else Some s)"

text \<open>
  What one run of the script shows.  Each prompt reads one line; \<open>float\<close> turns it
  into a number or raises \<open>ValueError\<close>, so a line is \<open>Some x\<close> or \<open>None\<close>.
  A rejected attempt prints its message and the outer \<open>while True\<close> prompts again; an
  accepted one runs the simulation, prints the result and leaves the loop.  When the
  input ends, \<open>input\<close> raises \<open>EOFError\<close>, which nothing catches.
\<close>

datatype event =
    Try_again message
  | Result bounce_state
  | Never_returns
  | EOFError

fun script :: "npfloat option list \<Rightarrow> event list" where
  "script (None # rest) = Try_again Inputs_not_floats # script rest"
| "script (Some i # None # rest) = Try_again Inputs_not_floats # script rest"
| "script (Some i # Some m # None # rest) = Try_again Inputs_not_floats # script rest"
| "script (Some i # Some m # Some e # rest) =
     (case input_error i m e of
        Some msg \<Rightarrow> Try_again msg # script rest
      | None \<Rightarrow>
          (case bounce_loop e m (initial_state i) of
             Some s \<Rightarrow> [Result s]
           | None \<Rightarrow> [Never_returns]))"
| "script _ = [EOFError]"

section \<open>Assessment 2: the thickness of boron nitride\<close>

subsection \<open>Constants\<close>

definition V_0 :: real where
  "V_0 = 3"

definition epsilon_0 :: real where
  "epsilon_0 = 5.53 / 1000"

definition epsilon_r :: real where
  "epsilon_r = 4"

definition sqrt_2m_over_hbar :: real where
  "sqrt_2m_over_hbar = 0.512317"

definition thickness_per_layer :: real where
  "thickness_per_layer = 3"

definition lambda_constant :: real where
  "lambda_constant = ln 2 / (8 * pi * epsilon_r * epsilon_0)"

definition distance_1 :: real where
  "distance_1 = 1.2 * lambda_constant / V_0"

definition starting_thickness :: real where
  "starting_thickness = 3"

definition step :: real where
  "step = 0.0001"


subsection \<open>The fitted equation\<close>

text \<open>
  A row of the data array is (transmission coefficient, energy, uncertainty).  The
  thickness is a Python float that only ever has \<open>step\<close> added or subtracted, so it is
  a real number; the quantities computed from it by numpy may be infinite or NaN.
\<close>

type_synonym bn_row = "npfloat \<times> npfloat \<times> npfloat"

definition distance_2 :: "real \<Rightarrow> real" where
  "distance_2 thickness = thickness - distance_1"

definition average_potential :: "real \<Rightarrow> npfloat" where
  "average_potential thickness =
     (let ln_term = flog (fdiv (Fin ((distance_2 thickness)\<^sup>2)) (Fin (distance_1\<^sup>2)));
          first_term = fdiv (Fin (1.15 * lambda_constant)) (Fin (distance_2 thickness - distance_1))
      in fsub (Fin V_0) (fmul first_term ln_term))"

definition transmission_coefficient :: "npfloat \<Rightarrow> real \<Rightarrow> npfloat" where
  "transmission_coefficient energy thickness =
     (let sqrt_term = fsqrt (fsub (average_potential thickness) energy);
          exponential_term =
            fmul (Fin (- 2 * (distance_2 thickness - distance_1) * sqrt_2m_over_hbar)) sqrt_term
      in fexp exponential_term)"

subsection \<open>Chi-squared and the error analysis\<close>

definition chi_squared :: "bn_row list \<Rightarrow> real \<Rightarrow> npfloat" where
  "chi_squared data thickness =
     fsum (map (\<lambda>(transmission, energy, uncertainty).
                  fsquare (fdiv (fsub transmission (transmission_coefficient energy thickness))
                                uncertainty))
               data)"

text \<open>\<open>len(data) - number_of_parameters\<close> is an integer; the quotient is numpy's.\<close>

definition number_of_degrees_of_freedom :: "'a list \<Rightarrow> int \<Rightarrow> int" where
  "number_of_degrees_of_freedom data number_of_parameters =
     int (length data) - number_of_parameters"

definition reduced_chi_squared :: "bn_row list \<Rightarrow> real \<Rightarrow> int \<Rightarrow> npfloat" where
  "reduced_chi_squared data thickness number_of_parameters =
     fdiv (chi_squared data thickness)
          (Fin (of_int (number_of_degrees_of_freedom data number_of_parameters)))"




text \<open>
  The main code's loop that steps the thickness until chi-squared is minimised, and the
  value \<open>final_thickness\<close> it leaves when started from \<open>starting_thickness\<close>.
\<close>

partial_function (option) minimise_chi_squared :: "bn_row list \<Rightarrow> real \<Rightarrow> real option" where
  "minimise_chi_squared valid_data thickness =
     (if isnan (chi_squared valid_data thickness)
      then minimise_chi_squared valid_data (thickness + step)
      else if flt (chi_squared valid_data (thickness + step)) (chi_squared valid_data thickness)
      then minimise_chi_squared valid_data (thickness + step)
      else if flt (chi_squared valid_data (thickness - step)) (chi_squared valid_data thickness)
      then minimise_chi_squared valid_data (thickness - step)
      else Some thickness)"

definition final_thickness :: "bn_row list \<Rightarrow> real option" where
  "final_thickness valid_data = minimise_chi_squared valid_data starting_thickness"


subsection \<open>The number of layers\<close>

datatype py_error = ZeroDivisionError

text \<open>
  Python's one-argument \<open>round\<close> on a float returns the nearest integer and resolves a
  tie to the even neighbour.
\<close>

definition py_round :: "real \<Rightarrow> int" where
  "py_round x =
     (let n = \<lfloor>x\<rfloor>; d = x - of_int n
      in if d < 1 / 2 then n
         else if 1 / 2 < d then n + 1
         else if even n then n else n + 1)"

text \<open>Both arguments are Python numbers, so a zero divisor raises.\<close>

definition number_of_layers :: "real \<Rightarrow> real \<Rightarrow> py_error + int" where
  "number_of_layers thickness thickness_per_layer' =
     (if thickness_per_layer' = 0 then Inl ZeroDivisionError
      else Inr (py_round (thickness / thickness_per_layer')))"

subsection \<open>The descent as the specification words it\<close>

text \<open>
  The state machine of the specification, for any objective \<open>f\<close> and step \<open>s\<close>: escape
  upwards from an undefined value, else move to the upper neighbour if it is better,
  else to the lower one if it is better, else stop.
\<close>

partial_function (option) hill_descent ::
  "(real \<Rightarrow> npfloat) \<Rightarrow> real \<Rightarrow> real \<Rightarrow> real option" where
  "hill_descent f s p =
     (if isnan (f p) then hill_descent f s (p + s)
      else if flt (f (p + s)) (f p) then hill_descent f s (p + s)
      else if flt (f (p - s)) (f p) then hill_descent f s (p - s)
      else Some p)"

section \<open>Assessment 3: nuclear decay\<close>

subsection \<open>Constants\<close>

text \<open>\<open>scipy.constants.Avogadro\<close>, the CODATA 2018 value.\<close>

definition Avogadro :: real where
  "Avogadro = 6.02214076 * 10 ^ 23"

definition initial_number_sr_nuclei :: real where
  "initial_number_sr_nuclei = (1 / 10 ^ 6) * Avogadro / 10 ^ 12"




subsection \<open>Arrays and the store\<close>

text \<open>
  A row of the data array is (time, activity, uncertainty).  \<open>read_and_validate\<close> keeps
  only rows on which \<open>np.isfinite\<close> holds, so the entries are real numbers.  Reading and
  validating the files is outside the model: its result, the array, is the input.

  numpy arrays are objects: a name is a reference, and an assignment to a slice writes
  into the object every reference shares.  The store maps references to arrays.
\<close>

type_synonym decay_row = "real \<times> real \<times> real"

type_synonym array_ref = nat

record store =
  arrays :: "array_ref \<Rightarrow> decay_row list"
  next_ref :: array_ref


text \<open>
  \<open>convert_time_to_seconds\<close>: \<open>data_in_seconds = data\<close> binds a second name to the same
  object, \<open>data_in_seconds[:,0] = data[:,0] * 3600\<close> overwrites its first column, and
  the reference is returned.
\<close>

definition convert_time_to_seconds :: "store \<Rightarrow> array_ref \<Rightarrow> store \<times> array_ref" where
  "convert_time_to_seconds s data =
     (let data_in_seconds = data;
          column = map (\<lambda>(time, activity, uncertainty). time * 3600) (arrays s data);
          s' = s\<lparr>arrays := (arrays s)(data_in_seconds :=
                  map (\<lambda>(t, (time, activity, uncertainty)). (t, activity, uncertainty))
                      (zip column (arrays s data_in_seconds)))\<rparr>
      in (s', data_in_seconds))"



subsection \<open>The fitted equation, chi-squared and the outliers\<close>

text \<open>The decay constants are the pair (Rb, Sr) of finite numbers the minimiser returns.\<close>

definition activity :: "real \<Rightarrow> real \<times> real \<Rightarrow> npfloat" where
  "activity time decay_constants =
     (let decay_constant_rb = fst decay_constants;
          decay_constant_sr = snd decay_constants;
          first_term = fdiv (Fin (initial_number_sr_nuclei * decay_constant_rb * decay_constant_sr))
                            (Fin (decay_constant_rb - decay_constant_sr));
          second_term = fsub (fexp (Fin (- decay_constant_sr * time)))
                             (fexp (Fin (- decay_constant_rb * time)))
      in fmul first_term second_term)"

definition chi_squared_decay :: "real \<times> real \<Rightarrow> decay_row list \<Rightarrow> npfloat" where
  "chi_squared_decay decay_constants data =
     fsum (map (\<lambda>(time, measured, uncertainty).
                  fsquare (fdiv (fsub (Fin measured) (activity time decay_constants))
                                (Fin uncertainty)))
               data)"

definition reduced_chi_squared_decay :: "real \<times> real \<Rightarrow> decay_row list \<Rightarrow> int \<Rightarrow> npfloat" where
  "reduced_chi_squared_decay decay_constants data number_of_parameters =
     fdiv (chi_squared_decay decay_constants data)
          (Fin (of_int (number_of_degrees_of_freedom data number_of_parameters)))"



subsection \<open>Half-lives\<close>



subsection \<open>The two fits\<close>



record fits =
  decay_constants_preliminary :: "real \<times> real"
  data_without_outliers :: "decay_row list"
  decay_constants :: "real \<times> real"


section \<open>Notions used to state the properties\<close>




text \<open>
  The order in which the minimisers rank values of the objective: an undefined value
  (NaN) is worse than any defined one, defined values compare as numbers.
\<close>

definition no_worse :: "npfloat \<Rightarrow> npfloat \<Rightarrow> bool" where
  "no_worse x y = (\<not> isnan x \<and> (isnan y \<or> fle x y))"

text \<open>A value that is not below zero: a non-negative number, \<open>+inf\<close>, or NaN.\<close>

fun not_negative :: "npfloat \<Rightarrow> bool" where
  "not_negative (Fin a) = (0 \<le> a)"
| "not_negative NInf = False"
| "not_negative _ = True"

section \<open>Lemmas about the bounce loop\<close>

lemma g_pos: "0 < g"
  by (simp add: g_def)

lemma bounce_time_Fin:
  "0 \<le> h \<Longrightarrow> 0 \<le> e \<Longrightarrow>
   bounce_time (Fin h) (Fin e) = Fin (sqrt (2 * h / g) + sqrt (2 * h * e / g))"
  using g_pos by (simp add: bounce_time_def Let_def not_less)

lemma bounce_loop_continue:
  "fge (fmul (height s) e) m \<Longrightarrow> bounce_loop e m s = bounce_loop e m (bounce_step e s)"
  by (subst bounce_loop.simps) simp

lemma bounce_loop_stop:
  "\<not> fge (fmul (height s) e) m \<Longrightarrow> bounce_loop e m s = Some s"
  by (subst bounce_loop.simps) simp

lemma bounce_step_Fin:
  "0 \<le> h \<Longrightarrow> 0 \<le> e \<Longrightarrow>
   bounce_step (Fin e) \<lparr>bounces = n, total_time = Fin t, height = Fin h,
                         array_heights = hs, array_times = ts\<rparr> =
   \<lparr>bounces = Suc n, total_time = Fin (t + (sqrt (2 * h / g) + sqrt (2 * h * e / g))),
    height = Fin (h * e), array_heights = hs @ [Fin (h * e)],
    array_times = ts @ [Fin (t + (sqrt (2 * h / g) + sqrt (2 * h * e / g)))]\<rparr>"
  by (simp add: bounce_step_def Let_def bounce_time_Fin)

lemma reference_loop:
  fixes T :: "real \<Rightarrow> real"
  defines "T \<equiv> \<lambda>h. sqrt (2 * h / g) + sqrt (2 * h * 0.5 / g)"
  shows "bounce_loop (Fin 0.5) (Fin 1) (initial_state (Fin 10)) =
   Some \<lparr>bounces = 3,
         total_time = Fin (T 10 + T 5 + T 2.5),
         height = Fin 1.25,
         array_heights = [Fin 10, Fin 5, Fin 2.5, Fin 1.25],
         array_times = [Fin 0, Fin (T 10), Fin (T 10 + T 5), Fin (T 10 + T 5 + T 2.5)]\<rparr>"
proof -
  let ?e = "Fin 0.5" and ?m = "Fin 1"
  let ?s0 = "\<lparr>bounces = 0, total_time = Fin 0, height = Fin 10,
              array_heights = [Fin 10], array_times = [Fin 0]\<rparr>"
  let ?s1 = "bounce_step ?e ?s0"
  let ?s2 = "bounce_step ?e ?s1"
  let ?s3 = "bounce_step ?e ?s2"
  have s1: "?s1 = \<lparr>bounces = 1, total_time = Fin (T 10), height = Fin 5,
              array_heights = [Fin 10, Fin 5], array_times = [Fin 0, Fin (T 10)]\<rparr>"
    by (simp add: bounce_step_Fin T_def)
  have s2: "?s2 = \<lparr>bounces = 2, total_time = Fin (T 10 + T 5), height = Fin 2.5,
              array_heights = [Fin 10, Fin 5, Fin 2.5],
              array_times = [Fin 0, Fin (T 10), Fin (T 10 + T 5)]\<rparr>"
    unfolding s1 by (simp add: bounce_step_Fin T_def)
  have s3: "?s3 = \<lparr>bounces = 3, total_time = Fin (T 10 + T 5 + T 2.5),
              height = Fin 1.25,
              array_heights = [Fin 10, Fin 5, Fin 2.5, Fin 1.25],
              array_times = [Fin 0, Fin (T 10), Fin (T 10 + T 5),
                             Fin (T 10 + T 5 + T 2.5)]\<rparr>"
    unfolding s2 by (simp add: bounce_step_Fin T_def)
  have "bounce_loop ?e ?m ?s0 = bounce_loop ?e ?m ?s1"
    by (rule bounce_loop_continue) (simp add: fge_def fle_def)
  also have "\<dots> = bounce_loop ?e ?m ?s2"
    by (rule bounce_loop_continue) (simp only: s1, simp add: fge_def fle_def)
  also have "\<dots> = bounce_loop ?e ?m ?s3"
    by (rule bounce_loop_continue) (simp only: s2, simp add: fge_def fle_def)
  also have "\<dots> = Some ?s3"
    by (rule bounce_loop_stop) (simp only: s3, simp add: fge_def fle_def)
  finally show ?thesis by (simp only: initial_state_def s3)
qed

lemma reference_accepted: "input_error (Fin 10) (Fin 1) (Fin 0.5) = None"
  by (simp add: input_error_def fle_def fge_def fgt_def)





section \<open>Lemmas about the descent loops\<close>

text \<open>
  Both loops of the thickness script compute what \<open>hill_descent\<close> computes, and a
  descent that returns has stopped at a defined value with no better neighbour.
\<close>

lemma hill_descent_stops:
  assumes "hill_descent f s p = Some q"
  shows "\<not> isnan (f q) \<and> \<not> flt (f (q + s)) (f q) \<and> \<not> flt (f (q - s)) (f q)"
  by (rule hill_descent.raw_induct
        [where P = "\<lambda>f s p q. \<not> isnan (f q) \<and> \<not> flt (f (q + s)) (f q) \<and> \<not> flt (f (q - s)) (f q)",
         OF _ assms])
     (auto split: if_splits)

lemma not_flt_no_worse: "\<not> isnan x \<Longrightarrow> \<not> flt y x \<Longrightarrow> no_worse x y"
  by (cases x; cases y) (auto simp: no_worse_def fle_def)

lemma no_worse_cases:
  "no_worse x y \<longleftrightarrow>
     (case (x, y) of
        (NaN, _) \<Rightarrow> False
      | (_, NaN) \<Rightarrow> True
      | (Fin a, Fin b) \<Rightarrow> a \<le> b
      | (NInf, _) \<Rightarrow> True
      | (_, PInf) \<Rightarrow> True
      | _ \<Rightarrow> False)"
  by (cases x; cases y) (auto simp: no_worse_def fle_def)

lemma minimise_le_descent:
  assumes "minimise_chi_squared d p = Some q"
  shows "hill_descent (chi_squared d) step p = Some q"
proof (rule minimise_chi_squared.raw_induct
        [where P = "\<lambda>d p q. hill_descent (chi_squared d) step p = Some q", OF _ assms])
  fix m d p q
  assume IH: "\<And>d p q. m d p = Some q \<Longrightarrow> hill_descent (chi_squared d) step p = Some q"
    and *: "(if isnan (chi_squared d p) then m d (p + step)
      else if flt (chi_squared d (p + step)) (chi_squared d p) then m d (p + step)
      else if flt (chi_squared d (p - step)) (chi_squared d p) then m d (p - step)
      else Some p) = Some q"
  show "hill_descent (chi_squared d) step p = Some q"
    using * by (subst hill_descent.simps) (auto split: if_splits dest: IH)
qed

lemma descent_le_minimise:
  assumes "hill_descent f s p = Some q"
  shows "f = chi_squared d \<longrightarrow> s = step \<longrightarrow> minimise_chi_squared d p = Some q"
proof (rule hill_descent.raw_induct
        [where P = "\<lambda>f s p q. f = chi_squared d \<longrightarrow> s = step \<longrightarrow> minimise_chi_squared d p = Some q",
         OF _ assms], intro impI)
  fix h f s p q
  assume IH: "\<And>f s p q. h f s p = Some q \<Longrightarrow>
                f = chi_squared d \<longrightarrow> s = step \<longrightarrow> minimise_chi_squared d p = Some q"
    and *: "(if isnan (f p) then h f s (p + s)
      else if flt (f (p + s)) (f p) then h f s (p + s)
      else if flt (f (p - s)) (f p) then h f s (p - s)
      else Some p) = Some q" and f: "f = chi_squared d" and s: "s = step"
  show "minimise_chi_squared d p = Some q"
    using * IH unfolding f s by (subst minimise_chi_squared.simps) (auto split: if_splits)
qed

lemma option_eqI:
  assumes "\<And>q. a = Some q \<Longrightarrow> b = Some q" and "\<And>q. b = Some q \<Longrightarrow> a = Some q"
  shows "a = (b :: 'a option)"
  using assms by (cases a; cases b) auto

lemma minimise_is_descent:
  "minimise_chi_squared d p = hill_descent (chi_squared d) step p"
  by (rule option_eqI) (auto dest: minimise_le_descent descent_le_minimise)




lemma chi_squared_empty: "chi_squared [] = (\<lambda>thickness. Fin 0)"
  by (rule ext) (simp add: chi_squared_def)

lemma hill_descent_const: "hill_descent (\<lambda>_. Fin c) s p = Some p"
  by (subst hill_descent.simps) simp



lemma final_thickness_empty: "final_thickness [] = Some 3"
  by (simp add: final_thickness_def minimise_is_descent chi_squared_empty
        starting_thickness_def hill_descent_const)


section \<open>Lemmas about rounding\<close>

lemma py_round_near:
  assumes "\<bar>x - of_int k\<bar> < 1 / 2"
  shows "py_round x = k"
proof (cases "of_int k \<le> x")
  case True
  with assms have "\<lfloor>x\<rfloor> = k" by (intro floor_unique) auto
  with assms True show ?thesis by (simp add: py_round_def Let_def)
next
  case False
  with assms have "\<lfloor>x\<rfloor> = k - 1" by (intro floor_unique) auto
  with assms False show ?thesis by (simp add: py_round_def Let_def)
qed

lemma py_round_tie:
  assumes "\<bar>x - of_int k\<bar> = 1 / 2" and "even k"
  shows "py_round x = k"
proof (cases "of_int k \<le> x")
  case True
  with assms have x: "x = of_int k + 1 / 2" by auto
  then have "\<lfloor>x\<rfloor> = k" by (intro floor_unique) auto
  with x assms show ?thesis by (simp add: py_round_def Let_def)
next
  case False
  with assms have x: "x = of_int k - 1 / 2" by auto
  then have "\<lfloor>x\<rfloor> = k - 1" by (intro floor_unique) auto
  with x assms show ?thesis by (simp add: py_round_def Let_def)
qed

section \<open>Lemmas about chi-squared and the outlier filter\<close>

lemma not_negative_fsquare: "not_negative (fsquare x)"
  by (cases x) (simp_all add: fsquare_def)

lemma not_negative_fadd: "not_negative x \<Longrightarrow> not_negative y \<Longrightarrow> not_negative (fadd x y)"
  by (cases x; cases y) simp_all

lemma not_negative_fsum: "(\<And>x. x \<in> set xs \<Longrightarrow> not_negative x) \<Longrightarrow> not_negative (fsum xs)"
  by (induction xs) (simp_all add: not_negative_fadd)

lemma chi_squared_not_negative: "not_negative (chi_squared data thickness)"
  unfolding chi_squared_def
  by (rule not_negative_fsum) (auto simp: not_negative_fsquare)

lemma chi_squared_decay_not_negative: "not_negative (chi_squared_decay dc data)"
  unfolding chi_squared_decay_def
  by (rule not_negative_fsum) (auto simp: not_negative_fsquare)

lemma fdiv_positive:
  "not_negative c \<Longrightarrow> 0 < d \<Longrightarrow>
   not_negative (fdiv c (Fin d)) \<and> (isfinite c \<longrightarrow> isfinite (fdiv c (Fin d)))"
  by (cases c) (simp_all add: signed_inf_def)

lemma fdiv_zero: "\<not> isfinite (fdiv c (Fin 0))"
  by (cases c) (simp_all add: signed_inf_def)

lemma fdiv_negative:
  "not_negative c \<Longrightarrow> d < 0 \<Longrightarrow>
   \<not> flt (Fin 0) (fdiv c (Fin d)) \<and> (flt (fdiv c (Fin d)) (Fin 0) \<longleftrightarrow> flt (Fin 0) c)"
  by (cases c) (auto simp: signed_inf_def zero_less_divide_iff divide_less_0_iff)

lemma reduced_regimes:
  fixes d :: int
  assumes "not_negative c"
  shows "(0 < d \<longrightarrow> not_negative (fdiv c (Fin (of_int d))) \<and>
                    (isfinite c \<longrightarrow> isfinite (fdiv c (Fin (of_int d))))) \<and>
         (d = 0 \<longrightarrow> \<not> isfinite (fdiv c (Fin (of_int d)))) \<and>
         (d < 0 \<longrightarrow> \<not> flt (Fin 0) (fdiv c (Fin (of_int d))) \<and>
                    (flt (fdiv c (Fin (of_int d))) (Fin 0) \<longleftrightarrow> flt (Fin 0) c))"
  using fdiv_positive[OF assms, of "of_int d"] fdiv_negative[OF assms, of "of_int d"] fdiv_zero[of c]
  by auto


lemma fge_not_flt: "fge x y \<Longrightarrow> \<not> flt x y"
  by (cases x; cases y) (auto simp: fge_def fle_def)




section \<open>Lemmas about the arrays\<close>

lemma convert_time_to_seconds_eq:
  "convert_time_to_seconds s data =
     (s\<lparr>arrays := (arrays s)(data :=
          map (\<lambda>(time, activity, uncertainty). (time * 3600, activity, uncertainty))
              (arrays s data))\<rparr>, data)"
proof -
  have "map (\<lambda>(t, (time, activity, uncertainty)). (t, activity, uncertainty))
          (zip (map (\<lambda>(time, activity, uncertainty). time * 3600) rows) rows) =
        map (\<lambda>(time, activity, uncertainty). (time * 3600, activity, uncertainty)) rows"
    for rows :: "decay_row list"
    by (induction rows) auto
  then show ?thesis by (simp add: convert_time_to_seconds_def Let_def)
qed












section \<open>Lemmas about the edge of the defined region\<close>

text \<open>
  For thicknesses above \<open>2 * distance_1\<close> the average potential is a number that grows
  with the thickness.  A single sample with transmission 1 at an energy above the
  average potential at the starting thickness makes chi-squared undefined there; the
  loop climbs until chi-squared is defined and stops at once, one step above an
  undefined value.
\<close>

lemma ln2_bounds: "1 / 2 \<le> ln (2 :: real)" "ln (2 :: real) \<le> 1"
proof -
  have "ln (1 / 2 :: real) \<le> 1 / 2 - 1" by (rule ln_le_minus_one) simp
  moreover have "ln (1 / 2 :: real) = - ln 2" by (simp add: ln_div)
  ultimately show "1 / 2 \<le> ln (2 :: real)" by simp
  have "ln (2 :: real) \<le> 2 - 1" by (rule ln_le_minus_one) simp
  then show "ln (2 :: real) \<le> 1" by simp
qed

lemma lambda_constant_bounds: "7 / 10 \<le> lambda_constant" "lambda_constant \<le> 3"
proof -
  let ?D = "8 * pi * epsilon_r * epsilon_0"
  have D: "?D = 17696 / 100000 * pi"
    by (simp add: epsilon_r_def epsilon_0_def)
  have lo: "35392 / 100000 \<le> ?D" using pi_ge_two by (simp add: D)
  have hi: "?D < 70784 / 100000" using pi_less_4 by (simp add: D)
  have pos: "0 < ?D" using lo by linarith
  have "7 / 10 * ?D \<le> ln 2" using hi ln2_bounds(1) by linarith
  then show "7 / 10 \<le> lambda_constant"
    unfolding lambda_constant_def using pos by (simp add: pos_le_divide_eq)
  have "ln 2 \<le> 3 * ?D" using lo ln2_bounds(2) by linarith
  then show "lambda_constant \<le> 3"
    unfolding lambda_constant_def using pos by (simp add: pos_divide_le_eq)
qed

lemma distance_1_bounds: "7 / 25 \<le> distance_1" "distance_1 \<le> 6 / 5"
  using lambda_constant_bounds by (simp_all add: distance_1_def V_0_def)

lemma average_potential_Fin:
  assumes "2 * distance_1 < t"
  shows "average_potential t =
           Fin (V_0 - 1.15 * lambda_constant / (t - 2 * distance_1) *
                        (2 * ln ((t - distance_1) / distance_1)))"
proof -
  have d: "0 < distance_1" using distance_1_bounds(1) by linarith
  with assms have x: "0 < t - distance_1" by linarith
  have sq: "((t - distance_1)\<^sup>2) / (distance_1\<^sup>2) = ((t - distance_1) / distance_1)\<^sup>2"
    by (simp add: power_divide)
  have ratio: "0 < (t - distance_1) / distance_1" using d x by simp
  have ln: "ln (((t - distance_1)\<^sup>2) / (distance_1\<^sup>2)) =
            2 * ln ((t - distance_1) / distance_1)"
    unfolding sq using ratio by (simp add: ln_realpow)
  have pos: "0 < ((t - distance_1)\<^sup>2) / (distance_1\<^sup>2)"
    unfolding sq using d x by simp
  have ne: "distance_1\<^sup>2 \<noteq> 0" "t - distance_1 - distance_1 \<noteq> 0"
    using d assms by simp_all
  have "flog (fdiv (Fin ((distance_2 t)\<^sup>2)) (Fin (distance_1\<^sup>2))) =
        Fin (2 * ln ((t - distance_1) / distance_1))"
    using ne(1) pos ln x by (simp add: distance_2_def not_less less_imp_le)
  moreover have "fdiv (Fin (1.15 * lambda_constant)) (Fin (distance_2 t - distance_1)) =
        Fin (1.15 * lambda_constant / (t - 2 * distance_1))"
    using ne(2) by (simp add: distance_2_def algebra_simps)
  ultimately show ?thesis
    by (simp add: average_potential_def Let_def fsub_def)
qed

lemma chord_slope:
  fixes d x y :: real
  assumes "0 < d" "d < x" "x \<le> y"
  shows "ln (y / d) / (y - d) \<le> ln (x / d) / (x - d)"
proof -
  from assms have x: "0 < x" and y: "0 < y" by linarith+
  have "ln (y / x) \<le> y / x - 1" by (rule ln_le_minus_one) (simp add: x y)
  then have a: "ln (y / x) \<le> (y - x) / x" using x by (simp add: field_simps)
  have "ln (d / x) \<le> d / x - 1" by (rule ln_le_minus_one) (simp add: x assms)
  moreover have "ln (d / x) = - ln (x / d)" using x assms by (simp add: ln_div)
  ultimately have b: "(x - d) / x \<le> ln (x / d)" using x by (simp add: field_simps)
  have split: "ln (y / d) = ln (x / d) + ln (y / x)"
    using x y assms by (simp add: ln_div)
  have "(x - d) * ln (y / x) \<le> (x - d) * ((y - x) / x)"
    using a assms by (intro mult_left_mono) simp_all
  also have "\<dots> = (y - x) * ((x - d) / x)" by simp
  also have "\<dots> \<le> (y - x) * ln (x / d)"
    using b assms by (intro mult_left_mono) simp_all
  finally have "(x - d) * ln (y / d) \<le> (y - d) * ln (x / d)"
    unfolding split by (simp add: algebra_simps)
  moreover have "0 < x - d" "0 < y - d" using assms by linarith+
  ultimately show ?thesis
    by (simp add: field_simps)
qed


lemma average_potential_mono:
  assumes "2 * distance_1 < t" and "t \<le> t'"
  shows "\<exists>v v'. average_potential t = Fin v \<and> average_potential t' = Fin v' \<and> v \<le> v'"
proof -
  have d: "0 < distance_1" using distance_1_bounds(1) by linarith
  have l: "0 \<le> 1.15 * lambda_constant" using lambda_constant_bounds(1) by simp
  let ?L = "\<lambda>t. ln ((t - distance_1) / distance_1)"
  have "?L t' / (t' - distance_1 - distance_1) \<le> ?L t / (t - distance_1 - distance_1)"
    by (rule chord_slope) (use d assms in simp_all)
  then have h: "?L t' / (t' - 2 * distance_1) \<le> ?L t / (t - 2 * distance_1)"
    by (simp add: algebra_simps)
  have "1.15 * lambda_constant * (2 * (?L t' / (t' - 2 * distance_1)))
      \<le> 1.15 * lambda_constant * (2 * (?L t / (t - 2 * distance_1)))"
    using l h by (intro mult_left_mono) simp_all
  moreover have "c / a * (2 * b) = c * (2 * (b / a))" for a b c :: real
    by simp
  ultimately have "V_0 - 1.15 * lambda_constant / (t - 2 * distance_1) * (2 * ?L t)
          \<le> V_0 - 1.15 * lambda_constant / (t' - 2 * distance_1) * (2 * ?L t')"
    by (simp only: diff_left_mono)
  moreover from assms have "2 * distance_1 < t'" by linarith
  ultimately show ?thesis
    using assms(1) by (simp add: average_potential_Fin)
qed

text \<open>
  Chi-squared of a single sample with transmission 1 and uncertainty 1: undefined where
  the average potential is below the sample's energy, and growing with the thickness
  where it is defined.
\<close>

lemma chi_squared_single_nan:
  assumes "average_potential t = Fin v" and "v < e"
  shows "chi_squared [(Fin 1, Fin e, Fin 1)] t = NaN"
  using assms
  by (simp add: chi_squared_def transmission_coefficient_def Let_def fsub_def fsquare_def)

lemma chi_squared_single_Fin:
  assumes "average_potential t = Fin v" and "e \<le> v"
  shows "chi_squared [(Fin 1, Fin e, Fin 1)] t =
           Fin ((1 - exp (- (2 * ((distance_2 t - distance_1) * sqrt_2m_over_hbar * sqrt (v - e)))))\<^sup>2)"
proof -
  have "(2 * a - 2 * b) * c * d = - (2 * ((b - a) * c * d))" for a b c d :: real
    by (simp add: algebra_simps)
  then have "transmission_coefficient (Fin e) t =
        Fin (exp (- (2 * ((distance_2 t - distance_1) * sqrt_2m_over_hbar * sqrt (v - e)))))"
    using assms by (simp add: transmission_coefficient_def Let_def fsub_def)
  then show ?thesis
    by (simp add: chi_squared_def fsub_def fsquare_def power2_eq_square)
qed

lemma chi_squared_single_mono:
  assumes "2 * distance_1 < t" and "t \<le> t'"
    and "\<not> isnan (chi_squared [(Fin 1, Fin e, Fin 1)] t)"
  shows "\<not> flt (chi_squared [(Fin 1, Fin e, Fin 1)] t') (chi_squared [(Fin 1, Fin e, Fin 1)] t)"
proof -
  from average_potential_mono[OF assms(1,2)] obtain v v'
    where v: "average_potential t = Fin v" and v': "average_potential t' = Fin v'"
      and le: "v \<le> v'" by blast
  have ev: "e \<le> v"
  proof (rule ccontr)
    assume "\<not> e \<le> v"
    then have "v < e" by simp
    from chi_squared_single_nan[OF v this] assms(3) show False by simp
  qed
  let ?x = "\<lambda>t v. 2 * ((distance_2 t - distance_1) * sqrt_2m_over_hbar * sqrt (v - e))"
  have c: "0 \<le> sqrt_2m_over_hbar" by (simp add: sqrt_2m_over_hbar_def)
  have w: "0 \<le> distance_2 t - distance_1" "distance_2 t - distance_1 \<le> distance_2 t' - distance_1"
    using assms(1,2) by (simp_all add: distance_2_def)
  have "sqrt (v - e) \<le> sqrt (v' - e)" using le by simp
  then have "(distance_2 t - distance_1) * sqrt_2m_over_hbar * sqrt (v - e)
           \<le> (distance_2 t' - distance_1) * sqrt_2m_over_hbar * sqrt (v' - e)"
    using w c ev by (intro mult_mono) simp_all
  then have x: "?x t v \<le> ?x t' v'" by simp
  have "0 \<le> ?x t v" using w c ev by simp
  then have "exp (- ?x t v) \<le> 1" by simp
  moreover have "exp (- ?x t' v') \<le> exp (- ?x t v)" using x by simp
  ultimately have "(1 - exp (- ?x t v))\<^sup>2 \<le> (1 - exp (- ?x t' v'))\<^sup>2"
    by (intro power_mono) simp_all
  moreover have "e \<le> v'" using ev le by linarith
  ultimately show ?thesis
    using chi_squared_single_Fin[OF v ev] chi_squared_single_Fin[OF v' \<open>e \<le> v'\<close>]
    by (simp only: flt.simps not_less)
qed


lemma ln_lower: "0 < x \<Longrightarrow> 1 - 1 / x \<le> ln x" for x :: real
proof -
  assume x: "0 < x"
  then have "ln (1 / x) \<le> 1 / x - 1" by (intro ln_le_minus_one) simp
  moreover have "ln (1 / x) = - ln x" using x by (simp add: ln_div)
  ultimately show ?thesis by simp
qed

lemma average_potential_at_start:
  "\<exists>v. average_potential 3 = Fin v \<and> v < 29 / 10"
proof -
  have d: "7 / 25 \<le> distance_1" "distance_1 \<le> 6 / 5" by (rule distance_1_bounds)+
  let ?r = "(3 - distance_1) / distance_1"
  have r: "3 / 2 \<le> ?r" using d by (simp add: pos_le_divide_eq)
  then have rpos: "0 < ?r" by linarith
  then have "1 - 1 / ?r \<le> ln ?r" by (rule ln_lower)
  moreover have "1 / ?r = distance_1 / (3 - distance_1)" by simp
  moreover have "distance_1 / (3 - distance_1) \<le> 2 / 3"
    using d by (simp add: pos_divide_le_eq)
  ultimately have ln: "2 / 3 \<le> 2 * ln ?r" by simp
  have c: "4 / 5 \<le> 1.15 * lambda_constant" using lambda_constant_bounds(1) by simp
  have den: "0 < 3 - 2 * distance_1" "3 - 2 * distance_1 \<le> 3" using d by simp_all
  have "(4 / 5) / 3 \<le> 1.15 * lambda_constant / (3 - 2 * distance_1)"
    using c den by (intro frac_le) simp_all
  then have "(4 / 5) / 3 * (2 / 3) \<le> 1.15 * lambda_constant / (3 - 2 * distance_1) * (2 * ln ?r)"
    using ln by (intro mult_mono) simp_all
  then have "V_0 - 1.15 * lambda_constant / (3 - 2 * distance_1) * (2 * ln ?r) < 29 / 10"
    by (simp add: V_0_def)
  moreover have "2 * distance_1 < 3" using d by simp
  ultimately show ?thesis by (simp add: average_potential_Fin)
qed

lemma average_potential_far:
  "\<exists>v. average_potential 1003 = Fin v \<and> 29 / 10 \<le> v"
proof -
  have d: "7 / 25 \<le> distance_1" "distance_1 \<le> 6 / 5" by (rule distance_1_bounds)+
  let ?r = "(1003 - distance_1) / distance_1"
  have r: "1 \<le> ?r" "?r \<le> 2 ^ 12" using d by (simp_all add: pos_le_divide_eq pos_divide_le_eq)
  have "ln ?r \<le> ln (2 ^ 12 :: real)" using r by (subst ln_le_cancel_iff) simp_all
  also have "\<dots> = real 12 * ln 2" by (rule ln_realpow)
  also have "\<dots> \<le> 12" using ln2_bounds(2) by simp
  finally have ln: "2 * ln ?r \<le> 24" by simp
  have ln0: "0 \<le> 2 * ln ?r" using r(1) by simp
  have c: "0 \<le> 1.15 * lambda_constant" "1.15 * lambda_constant \<le> 7 / 2"
    using lambda_constant_bounds by simp_all
  have den: "1000 \<le> 1003 - 2 * distance_1" using d by simp
  have "1.15 * lambda_constant / (1003 - 2 * distance_1) \<le> (7 / 2) / 1000"
    using c den by (intro frac_le) simp_all
  moreover have "0 \<le> 1.15 * lambda_constant / (1003 - 2 * distance_1)"
    using c den by simp
  ultimately have "1.15 * lambda_constant / (1003 - 2 * distance_1) * (2 * ln ?r)
                   \<le> (7 / 2) / 1000 * 24"
    using ln ln0 by (intro mult_mono) simp_all
  then have "29 / 10 \<le> V_0 - 1.15 * lambda_constant / (1003 - 2 * distance_1) * (2 * ln ?r)"
    by (simp add: V_0_def)
  moreover have "2 * distance_1 < 1003" using d by simp
  ultimately show ?thesis by (simp add: average_potential_Fin)
qed


lemma minimise_escapes_nan:
  assumes "\<And>i. i < j \<Longrightarrow> isnan (chi_squared d (p + real i * step))"
  shows "minimise_chi_squared d p = minimise_chi_squared d (p + real j * step)"
  using assms
proof (induction j)
  case 0
  then show ?case by simp
next
  case (Suc j)
  then have "minimise_chi_squared d p = minimise_chi_squared d (p + real j * step)" by simp
  also have "\<dots> = minimise_chi_squared d (p + real j * step + step)"
    using Suc.prems[of j] by (subst minimise_chi_squared.simps) simp
  also have "p + real j * step + step = p + real (Suc j) * step"
    by (simp add: algebra_simps)
  finally show ?case .
qed

lemma minimise_stops:
  assumes "\<not> isnan (chi_squared d p)"
    and "\<not> flt (chi_squared d (p + step)) (chi_squared d p)"
    and "\<not> flt (chi_squared d (p - step)) (chi_squared d p)"
  shows "minimise_chi_squared d p = Some p"
  using assms by (subst minimise_chi_squared.simps) simp

lemma final_thickness_at_edge:
  "\<exists>p. final_thickness [(Fin 1, Fin 2.9, Fin 1)] = Some p \<and>
       isnan (chi_squared [(Fin 1, Fin 2.9, Fin 1)] (p - step))"
proof -
  let ?d = "[(Fin 1, Fin 2.9, Fin 1)]"
  define undefined_at where "undefined_at k \<longleftrightarrow> isnan (chi_squared ?d (3 + real k * step))" for k
  have start: "undefined_at 0"
  proof -
    from average_potential_at_start obtain v
      where "average_potential 3 = Fin v" and "v < 29 / 10" by blast
    then have "chi_squared [(Fin 1, Fin (29 / 10), Fin 1)] 3 = NaN"
      by (rule chi_squared_single_nan)
    then show ?thesis by (simp add: undefined_at_def)
  qed
  have far: "\<not> undefined_at (10 ^ 7)"
  proof -
    from average_potential_far obtain v
      where "average_potential 1003 = Fin v" and "29 / 10 \<le> v" by blast
    then have "\<not> isnan (chi_squared [(Fin 1, Fin (29 / 10), Fin 1)] 1003)"
      by (simp add: chi_squared_single_Fin)
    moreover have "3 + real (10 ^ 7) * step = 1003" by (simp add: step_def)
    ultimately show ?thesis by (simp only: undefined_at_def simp_thms)
  qed
  define k where "k = (LEAST k. \<not> undefined_at k)"
  have defined: "\<not> undefined_at k"
    unfolding k_def using far by (rule LeastI)
  have before: "undefined_at i" if "i < k" for i
    using not_less_Least[of i "\<lambda>k. \<not> undefined_at k"] that by (simp add: k_def)
  from start defined have "k \<noteq> 0" by (cases k) auto
  then obtain m where m: "k = Suc m" by (cases k) auto
  let ?p = "3 + real k * step"
  have below: "?p - step = 3 + real m * step" by (simp add: m algebra_simps)
  have "undefined_at m" by (rule before) (simp add: m)
  then have nan_below: "isnan (chi_squared ?d (?p - step))"
    by (simp only: below undefined_at_def)
  have here: "\<not> isnan (chi_squared ?d ?p)"
    using defined by (simp add: undefined_at_def)
  have "2 * distance_1 < ?p"
  proof -
    have "0 \<le> real k * step" by (simp add: step_def)
    with distance_1_bounds(2) show ?thesis by linarith
  qed
  then have above: "\<not> flt (chi_squared ?d (?p + step)) (chi_squared ?d ?p)"
    using here by (intro chi_squared_single_mono) (simp_all add: step_def)
  have "\<not> flt (chi_squared ?d (?p - step)) (chi_squared ?d ?p)"
    using nan_below by (cases "chi_squared ?d (?p - step)") simp_all
  with here above have "minimise_chi_squared ?d ?p = Some ?p"
    by (intro minimise_stops)
  moreover have "minimise_chi_squared ?d 3 = minimise_chi_squared ?d ?p"
    by (rule minimise_escapes_nan) (use before in \<open>simp add: undefined_at_def\<close>)
  ultimately have "final_thickness ?d = Some ?p"
    by (simp add: final_thickness_def starting_thickness_def)
  with nan_below show ?thesis by blast
qed

section \<open>The claims\<close>

text \<open>
  C1.  The reference run of the bounce script: for initial height 10, minimum height 1
  and efficiency 0.5 the inputs are accepted, the recorded peak heights are
  10, 5, 2.5, 1.25, the loop stops because 1.25 * 0.5 = 0.625 is below 1, the bounce count
  is 3, and the total time is the sum over the peaks 10, 5, 2.5 of
  \<open>sqrt (2 * h / g) + sqrt (2 * h * 0.5 / g)\<close> with \<open>g = 9.80665\<close>.
\<close>

theorem bounce_reference_run:
  "let T = (\<lambda>h. sqrt (2 * h / g) + sqrt (2 * h * 0.5 / g)) in
   g = 9.80665 \<and>
   script [Some (Fin 10), Some (Fin 1), Some (Fin 0.5)] =
     [Result \<lparr>bounces = 3,
              total_time = Fin (sum_list (map T [10, 5, 2.5])),
              height = Fin 1.25,
              array_heights = [Fin 10, Fin 5, Fin 2.5, Fin 1.25],
              array_times = [Fin 0, Fin (T 10), Fin (T 10 + T 5), Fin (T 10 + T 5 + T 2.5)]\<rparr>] \<and>
   fmul (Fin 1.25) (Fin 0.5) = Fin 0.625 \<and> flt (Fin 0.625) (Fin 1)"
  unfolding Let_def
  apply (intro conjI)
     apply (simp add: g_def)
    apply (simp only: script.simps reference_accepted reference_loop option.case)
    apply (simp add: add.assoc)
   apply simp_all
  done

text \<open>
  C2, as amended.  When the main loop returns a thickness, chi-squared is defined there
  and neither neighbour on the grid, \<open>step = 0.0001\<close> away, has a smaller value: each
  neighbour's chi-squared is undefined (NaN) or at least as large.  \<open>no_worse\<close> is this
  order, in which an undefined value is worse than every defined one.
\<close>

theorem thickness_local_minimum:
  assumes "final_thickness valid_data = Some final"
  shows "step = 0.0001 \<and>
         \<not> isnan (chi_squared valid_data final) \<and>
         no_worse (chi_squared valid_data final) (chi_squared valid_data (final + step)) \<and>
         no_worse (chi_squared valid_data final) (chi_squared valid_data (final - step)) \<and>
         \<not> flt (chi_squared valid_data (final + step)) (chi_squared valid_data final) \<and>
         \<not> flt (chi_squared valid_data (final - step)) (chi_squared valid_data final)"
proof -
  from assms have "hill_descent (chi_squared valid_data) step starting_thickness = Some final"
    by (simp add: final_thickness_def minimise_is_descent)
  from hill_descent_stops[OF this] show ?thesis
    by (simp add: not_flt_no_worse step_def)
qed

theorem thickness_local_minimum_witness:
  "final_thickness [(Fin 1, Fin 2.9, Fin 1)] \<noteq> None \<and>
   no_worse (chi_squared [(Fin 1, Fin 2.9, Fin 1)] (the (final_thickness [(Fin 1, Fin 2.9, Fin 1)])))
            (chi_squared [(Fin 1, Fin 2.9, Fin 1)]
               (the (final_thickness [(Fin 1, Fin 2.9, Fin 1)]) + step)) \<and>
   no_worse (chi_squared [(Fin 1, Fin 2.9, Fin 1)] (the (final_thickness [(Fin 1, Fin 2.9, Fin 1)])))
            (chi_squared [(Fin 1, Fin 2.9, Fin 1)]
               (the (final_thickness [(Fin 1, Fin 2.9, Fin 1)]) - step)) \<and>
   final_thickness [] = Some 3 \<and>
   no_worse (chi_squared [] 3) (chi_squared [] (3 + step))"
proof -
  from final_thickness_at_edge obtain p
    where p: "final_thickness [(Fin 1, Fin 2.9, Fin 1)] = Some p" by blast
  from thickness_local_minimum[OF p] thickness_local_minimum[OF final_thickness_empty]
    p final_thickness_empty
  show ?thesis by simp
qed

text \<open>
  As stated, with the comparison of the language, the claim fails when a neighbour is
  undefined.  For the single valid sample (1, 2.9, 1) the loop returns a thickness whose
  lower neighbour has chi-squared NaN, and \<open><=\<close> against NaN is false.
\<close>

theorem thickness_local_minimum_counterexample:
  "final_thickness [(Fin 1, Fin 2.9, Fin 1)] \<noteq> None \<and>
   isnan (chi_squared [(Fin 1, Fin 2.9, Fin 1)]
            (the (final_thickness [(Fin 1, Fin 2.9, Fin 1)]) - step)) \<and>
   \<not> fle (chi_squared [(Fin 1, Fin 2.9, Fin 1)] (the (final_thickness [(Fin 1, Fin 2.9, Fin 1)])))
          (chi_squared [(Fin 1, Fin 2.9, Fin 1)]
             (the (final_thickness [(Fin 1, Fin 2.9, Fin 1)]) - step))"
proof -
  from final_thickness_at_edge obtain p
    where p: "final_thickness [(Fin 1, Fin 2.9, Fin 1)] = Some p"
      and nan: "isnan (chi_squared [(Fin 1, Fin 2.9, Fin 1)] (p - step))" by blast
  have "\<not> fle x y" if "isnan y" for x y
    using that by (cases x; cases y) (simp_all add: fle_def)
  with p nan show ?thesis by simp
qed











text \<open>
  C7, as amended.  \<open>number_of_layers t 3\<close> is \<open>k\<close> whenever \<open>t\<close> is strictly within 1.5
  of \<open>3 * k\<close>, and also at distance exactly 1.5 when \<open>k\<close> is even.
\<close>

theorem layer_count_stable:
  assumes "\<bar>t - 3 * of_int k\<bar> < 1.5 \<or> (\<bar>t - 3 * of_int k\<bar> = 1.5 \<and> even k)"
  shows "number_of_layers t thickness_per_layer = Inr k"
proof -
  have eq: "\<bar>t / 3 - of_int k\<bar> = \<bar>t - 3 * of_int k\<bar> / 3" by (simp add: field_simps abs_if)
  from assms have "py_round (t / 3) = k"
  proof
    assume "\<bar>t - 3 * of_int k\<bar> < 1.5"
    with eq have "\<bar>t / 3 - of_int k\<bar> < 1 / 2" by simp
    then show ?thesis by (rule py_round_near)
  next
    assume "\<bar>t - 3 * of_int k\<bar> = 1.5 \<and> even k"
    with eq have "\<bar>t / 3 - of_int k\<bar> = 1 / 2" and "even k" by simp_all
    then show ?thesis by (rule py_round_tie)
  qed
  then show ?thesis by (simp add: number_of_layers_def thickness_per_layer_def)
qed

theorem layer_count_stable_witness:
  "\<bar>4.4 - 3 * of_int 1\<bar> < (1.5 :: real) \<and> number_of_layers 4.4 thickness_per_layer = Inr 1 \<and>
   \<bar>7.5 - 3 * of_int 2\<bar> = (1.5 :: real) \<and> even (2 :: int) \<and>
   number_of_layers 7.5 thickness_per_layer = Inr 2"
  using layer_count_stable [of "4.4" 1] layer_count_stable [of "7.5" 2]
  by simp

text \<open>
  At distance exactly 1.5 from an odd multiple the tie goes to the even neighbour:
  a thickness of 4.5 gives 2 layers, not 1.
\<close>

theorem layer_count_stable_counterexample:
  "(1 :: int) \<le> 1 \<and> \<bar>4.5 - 3 * of_int 1\<bar> \<le> (1.5 :: real) \<and>
   number_of_layers 4.5 thickness_per_layer = Inr 2 \<and>
   number_of_layers 4.5 thickness_per_layer \<noteq> Inr 1"
proof -
  have "\<lfloor>3 / 2 :: real\<rfloor> = 1" by (intro floor_unique) auto
  then have "py_round (3 / 2) = 2" by (simp add: py_round_def Let_def)
  then show ?thesis by (simp add: number_of_layers_def thickness_per_layer_def)
qed



text \<open>
  C9, as amended.  In both scripts the reduced chi-squared is chi-squared divided by
  \<open>len(data) - number_of_parameters\<close>.  With more rows than parameters the divisor is
  positive and the quotient is not negative; with as many rows as parameters the divisor
  is zero and the quotient is an infinity or NaN; with fewer rows the divisor is negative
  and the quotient is never positive: it is negative exactly when chi-squared is
  positive.
\<close>

theorem reduced_chi_squared_degrees_of_freedom:
  "number_of_degrees_of_freedom data n = int (length data) - n \<and>
   reduced_chi_squared data t n =
     fdiv (chi_squared data t) (Fin (of_int (int (length data) - n))) \<and>
   reduced_chi_squared_decay dc data' n =
     fdiv (chi_squared_decay dc data') (Fin (of_int (int (length data') - n))) \<and>
   (n < int (length data) \<longrightarrow>
      not_negative (reduced_chi_squared data t n) \<and>
      (isfinite (chi_squared data t) \<longrightarrow> isfinite (reduced_chi_squared data t n))) \<and>
   (n < int (length data') \<longrightarrow>
      not_negative (reduced_chi_squared_decay dc data' n) \<and>
      (isfinite (chi_squared_decay dc data') \<longrightarrow> isfinite (reduced_chi_squared_decay dc data' n))) \<and>
   (int (length data) = n \<longrightarrow>
      number_of_degrees_of_freedom data n = 0 \<and> \<not> isfinite (reduced_chi_squared data t n)) \<and>
   (int (length data') = n \<longrightarrow>
      number_of_degrees_of_freedom data' n = 0 \<and>
      \<not> isfinite (reduced_chi_squared_decay dc data' n)) \<and>
   (int (length data) < n \<longrightarrow>
      number_of_degrees_of_freedom data n < 0 \<and>
      \<not> flt (Fin 0) (reduced_chi_squared data t n) \<and>
      (flt (reduced_chi_squared data t n) (Fin 0) \<longleftrightarrow> flt (Fin 0) (chi_squared data t))) \<and>
   (int (length data') < n \<longrightarrow>
      number_of_degrees_of_freedom data' n < 0 \<and>
      \<not> flt (Fin 0) (reduced_chi_squared_decay dc data' n) \<and>
      (flt (reduced_chi_squared_decay dc data' n) (Fin 0) \<longleftrightarrow>
         flt (Fin 0) (chi_squared_decay dc data')))"
  using reduced_regimes[OF chi_squared_not_negative, of "int (length data) - n" data t]
        reduced_regimes[OF chi_squared_decay_not_negative, of "int (length data') - n" dc data']
  unfolding reduced_chi_squared_def reduced_chi_squared_decay_def number_of_degrees_of_freedom_def
  by (intro conjI impI) simp_all


theorem reduced_chi_squared_degrees_of_freedom_witness:
  "(1 :: int) < int (length [(Fin 1, Fin 1, Fin 1), (Fin 1, Fin 2, Fin 1) :: bn_row]) \<and>
   not_negative (reduced_chi_squared [(Fin 1, Fin 1, Fin 1), (Fin 1, Fin 2, Fin 1)] 3 1) \<and>
   int (length [(0, 1, 1) :: decay_row]) = 1 \<and>
   \<not> isfinite (reduced_chi_squared_decay (1, 2) [(0, 1, 1)] 1) \<and>
   int (length [(Fin 1, Fin 1, Fin 1) :: bn_row]) < 2 \<and>
   \<not> flt (Fin 0) (reduced_chi_squared [(Fin 1, Fin 1, Fin 1)] 3 2) \<and>
   (2 :: int) < int (length [(0, 1, 1), (0, 2, 1), (0, 3, 1) :: decay_row]) \<and>
   not_negative (reduced_chi_squared_decay (1, 2) [(0, 1, 1), (0, 2, 1), (0, 3, 1)] 2)"
proof -
  note a = reduced_chi_squared_degrees_of_freedom
             [of "[(Fin 1, Fin 1, Fin 1), (Fin 1, Fin 2, Fin 1)]" 1 3 "(1, 2)" "[(0, 1, 1)]"]
  note b = reduced_chi_squared_degrees_of_freedom
             [of "[(Fin 1, Fin 1, Fin 1)]" 2 3 "(1, 2)" "[(0, 1, 1), (0, 2, 1), (0, 3, 1)]"]
  have "not_negative (reduced_chi_squared [(Fin 1, Fin 1, Fin 1), (Fin 1, Fin 2, Fin 1)] 3 1)"
    using a by (elim conjE) simp
  moreover have "\<not> isfinite (reduced_chi_squared_decay (1, 2) [(0, 1, 1)] 1)"
    using a by (elim conjE) simp
  moreover have "\<not> flt (Fin 0) (reduced_chi_squared [(Fin 1, Fin 1, Fin 1)] 3 2)"
    using b by (elim conjE) simp
  moreover have
    "not_negative (reduced_chi_squared_decay (1, 2) [(0, 1, 1), (0, 2, 1), (0, 3, 1)] 2)"
    using b by (elim conjE) simp
  ultimately show ?thesis by simp
qed

text \<open>
  With fewer rows than parameters and a chi-squared of zero the quotient is zero, not
  negative.
\<close>

theorem reduced_chi_squared_negative_counterexample:
  "int (length ([] :: bn_row list)) < 1 \<and>
   number_of_degrees_of_freedom ([] :: bn_row list) 1 = - 1 \<and>
   reduced_chi_squared [] 3 1 = Fin 0 \<and>
   \<not> flt (reduced_chi_squared [] 3 1) (Fin 0) \<and>
   int (length ([] :: decay_row list)) < 2 \<and>
   number_of_degrees_of_freedom ([] :: decay_row list) 2 = - 2 \<and>
   reduced_chi_squared_decay (0.0005, 0.005) [] 2 = Fin 0 \<and>
   \<not> flt (reduced_chi_squared_decay (0.0005, 0.005) [] 2) (Fin 0)"
  by (simp add: reduced_chi_squared_def reduced_chi_squared_decay_def
        number_of_degrees_of_freedom_def chi_squared_def chi_squared_decay_def)

text \<open>
  C10.  \<open>convert_time_to_seconds\<close> returns the reference it was given and changes the
  object behind it: afterwards the first column of the caller's array is multiplied by
  3600, the other columns and every other array are as before, and a second call
  multiplies the first column by 3600 again.
\<close>

theorem convert_time_to_seconds_in_place:
  "snd (convert_time_to_seconds s data) = data \<and>
   arrays (fst (convert_time_to_seconds s data)) =
     (arrays s)(data := map (\<lambda>(time, activity, uncertainty). (time * 3600, activity, uncertainty))
                            (arrays s data)) \<and>
   next_ref (fst (convert_time_to_seconds s data)) = next_ref s \<and>
   map fst (arrays (fst (convert_time_to_seconds s data)) data) =
     map (\<lambda>row. fst row * 3600) (arrays s data) \<and>
   map snd (arrays (fst (convert_time_to_seconds s data)) data) = map snd (arrays s data) \<and>
   arrays (fst (convert_time_to_seconds (fst (convert_time_to_seconds s data)) data)) data =
     map (\<lambda>(time, activity, uncertainty). (time * 3600 * 3600, activity, uncertainty))
         (arrays s data) \<and>
   ((\<exists>row \<in> set (arrays s data). fst row \<noteq> 0) \<longrightarrow>
      arrays (fst (convert_time_to_seconds s data)) data \<noteq> arrays s data)"
proof (intro conjI impI)
  assume "\<exists>row \<in> set (arrays s data). fst row \<noteq> 0"
  then obtain row where row: "row \<in> set (arrays s data)" "fst row \<noteq> 0" by blast
  show "arrays (fst (convert_time_to_seconds s data)) data \<noteq> arrays s data"
  proof
    assume "arrays (fst (convert_time_to_seconds s data)) data = arrays s data"
    then have "map fst (map (\<lambda>(time, activity, uncertainty).
                   (time * 3600, activity, uncertainty)) (arrays s data)) =
               map fst (arrays s data)"
      by (simp add: convert_time_to_seconds_eq)
    then have "map (\<lambda>row. fst row * 3600) (arrays s data) = map fst (arrays s data)"
      by (simp add: case_prod_unfold comp_def)
    with row(1) have "fst row * 3600 = fst row" by (meson map_eq_conv)
    with row(2) show False by simp
  qed
qed (simp_all add: convert_time_to_seconds_eq case_prod_unfold comp_def)

theorem convert_time_to_seconds_in_place_witness:
  "(\<exists>row \<in> set [(1, 5, 2), (2, 4, 1 :: real)]. fst row \<noteq> (0 :: real)) \<and>
   arrays (fst (convert_time_to_seconds \<lparr>arrays = (\<lambda>r. [(1, 5, 2), (2, 4, 1)]), next_ref = 1\<rparr> 0)) 0
     = [(3600, 5, 2), (7200, 4, 1)] \<and>
   arrays (fst (convert_time_to_seconds \<lparr>arrays = (\<lambda>r. [(1, 5, 2), (2, 4, 1)]), next_ref = 1\<rparr> 0)) 0
     \<noteq> [(1, 5, 2), (2, 4, 1)]"
  using convert_time_to_seconds_in_place
          [of "\<lparr>arrays = (\<lambda>r. [(1, 5, 2), (2, 4, 1)]), next_ref = 1\<rparr>" 0]
  by (simp add: convert_time_to_seconds_eq)

end
